theory Spec2Isabelle
  imports Complex_Main "HOL-Library.AList"
begin

section \<open>Python values\<close>

text \<open>
  The collector and the store pass loosely typed values around: the provider's field bag,
  the profile dictionary, the scraped supplement. A value is one of Python's built-in
  kinds. A float is a finite number, an infinity or a NaN. Finite floats are kept as exact
  rationals: rounding to 53 bits, overflow to infinity and underflow to zero are outside
  the model, and nothing below depends on them. Strings are lists of 8-bit characters and
  are read as ASCII text.
\<close>

datatype pyfloat = Fin rat | PosInf | NegInf | NaN

datatype pyval =
    PNone
  | PBool bool
  | PInt int
  | PFloat pyfloat
  | PStr string
  | PList "pyval list"
  | PDict "(string \<times> pyval) list"

text \<open>
  A dictionary is an association list in insertion order; the first pair with a key is
  the binding of that key. \<open>d.get(k, default)\<close>, \<open>d[k] = v\<close> and \<open>len(d)\<close>:
\<close>

type_synonym dict = "(string \<times> pyval) list"

definition dict_get :: "dict \<Rightarrow> string \<Rightarrow> pyval \<Rightarrow> pyval" where
  "dict_get d k dflt = (case map_of d k of None \<Rightarrow> dflt | Some v \<Rightarrow> v)"

definition dict_set :: "dict \<Rightarrow> string \<Rightarrow> pyval \<Rightarrow> dict" where
  "dict_set d k v = AList.update k v d"

definition dict_len :: "dict \<Rightarrow> nat" where
  "dict_len d = length (remdups (map fst d))"

text \<open>The exceptions that the modelled code can meet.\<close>

datatype exn =
    ValueError
  | TypeError
  | OverflowError
  | AttributeError
  | BindingError
  | IntegrityError
  | ProviderError

text \<open>Truth value testing (\<open>if v\<close>, \<open>not v\<close>).\<close>

fun truthy :: "pyval \<Rightarrow> bool" where
  "truthy PNone = False"
| "truthy (PBool b) = b"
| "truthy (PInt n) = (n \<noteq> 0)"
| "truthy (PFloat f) = (f \<noteq> Fin 0)"
| "truthy (PStr s) = (s \<noteq> [])"
| "truthy (PList xs) = (xs \<noteq> [])"
| "truthy (PDict d) = (d \<noteq> [])"

text \<open>\<open>v == 0\<close>, \<open>v == s\<close> for a string \<open>s\<close>, and \<open>v in [0, 'N/A', '']\<close>.\<close>

fun py_eq_zero :: "pyval \<Rightarrow> bool" where
  "py_eq_zero (PInt n) = (n = 0)"
| "py_eq_zero (PFloat f) = (f = Fin 0)"
| "py_eq_zero (PBool b) = (\<not> b)"
| "py_eq_zero _ = False"

fun py_eq_str :: "pyval \<Rightarrow> string \<Rightarrow> bool" where
  "py_eq_str (PStr t) s = (t = s)"
| "py_eq_str _ s = False"

definition in_sentinels :: "pyval \<Rightarrow> bool" where
  "in_sentinels v = (py_eq_zero v \<or> py_eq_str v ''N/A'' \<or> py_eq_str v '''')"

section \<open>Strings and numeric literals\<close>

definition upper_char :: "char \<Rightarrow> char" where
  "upper_char c =
     (case map_of (zip ''abcdefghijklmnopqrstuvwxyz'' ''ABCDEFGHIJKLMNOPQRSTUVWXYZ'') c of
        None \<Rightarrow> c | Some u \<Rightarrow> u)"

definition lower_char :: "char \<Rightarrow> char" where
  "lower_char c =
     (case map_of (zip ''ABCDEFGHIJKLMNOPQRSTUVWXYZ'' ''abcdefghijklmnopqrstuvwxyz'') c of
        None \<Rightarrow> c | Some l \<Rightarrow> l)"

definition py_upper :: "string \<Rightarrow> string" where
  "py_upper s = map upper_char s"

text \<open>
  \<open>str.strip()\<close> removes the ASCII characters 9 to 13, 28 to 31 and 32 from both ends;
  \<open>float\<close> and \<open>int\<close> skip only 9 to 13 and 32 around a literal.
\<close>

definition is_space :: "char \<Rightarrow> bool" where
  "is_space c = (c \<in> set [CHR 0x09, CHR 0x0A, CHR 0x0B, CHR 0x0C, CHR 0x0D,
                           CHR 0x1C, CHR 0x1D, CHR 0x1E, CHR 0x1F, CHR 0x20])"

definition is_literal_space :: "char \<Rightarrow> bool" where
  "is_literal_space c = (c \<in> set [CHR 0x09, CHR 0x0A, CHR 0x0B, CHR 0x0C, CHR 0x0D, CHR 0x20])"

definition strip_with :: "(char \<Rightarrow> bool) \<Rightarrow> string \<Rightarrow> string" where
  "strip_with p s = rev (dropWhile p (rev (dropWhile p s)))"

definition py_strip :: "string \<Rightarrow> string" where
  "py_strip s = strip_with is_space s"

text \<open>\<open>s.replace(c, '')\<close> for a one-character \<open>c\<close>.\<close>

definition remove_char :: "char \<Rightarrow> string \<Rightarrow> string" where
  "remove_char c s = filter (\<lambda>x. x \<noteq> c) s"

text \<open>\<open>sep.join(parts)\<close> on strings.\<close>

fun py_join :: "string \<Rightarrow> string list \<Rightarrow> string" where
  "py_join sep [] = []"
| "py_join sep [x] = x"
| "py_join sep (x # y # ys) = x @ sep @ py_join sep (y # ys)"

definition is_digit :: "char \<Rightarrow> bool" where
  "is_digit c = (c \<in> set ''0123456789'')"

definition digit_val :: "char \<Rightarrow> nat" where
  "digit_val c =
     (case map_of (zip ''0123456789'' [0, 1, 2, 3, 4, 5, 6, 7, 8, 9]) c of
        None \<Rightarrow> 0 | Some n \<Rightarrow> n)"

definition digits_val :: "string \<Rightarrow> nat" where
  "digits_val ds = foldl (\<lambda>a c. 10 * a + digit_val c) 0 ds"

text \<open>
  Underscores in a numeric literal: each one stands after a digit and before a digit.
  The first argument is the previous character.
\<close>

fun underscores_ok :: "char \<Rightarrow> string \<Rightarrow> bool" where
  "underscores_ok prev [] = (prev \<noteq> CHR ''_'')"
| "underscores_ok prev (c # cs) =
     ((if c = CHR ''_'' then is_digit prev
       else if prev = CHR ''_'' then is_digit c else True)
      \<and> underscores_ok c cs)"

fun split_sign :: "string \<Rightarrow> bool \<times> string" where
  "split_sign [] = (False, [])"
| "split_sign (c # cs) =
     (if c = CHR ''-'' then (True, cs)
      else if c = CHR ''+'' then (False, cs)
      else (False, c # cs))"

text \<open>What may follow the mantissa: nothing, or \<open>e\<close>, an optional sign and digits.\<close>

definition parse_exponent :: "string \<Rightarrow> int option" where
  "parse_exponent r =
     (case r of
        [] \<Rightarrow> Some 0
      | c # cs \<Rightarrow>
          if c = CHR ''e'' \<or> c = CHR ''E'' then
            (case split_sign cs of
               (neg, ds) \<Rightarrow>
                 if ds \<noteq> [] \<and> list_all is_digit ds
                 then Some (if neg then - int (digits_val ds) else int (digits_val ds))
                 else None)
          else None)"

definition dec_value :: "string \<Rightarrow> string \<Rightarrow> int \<Rightarrow> rat" where
  "dec_value ip fp e =
     (let m = of_nat (digits_val (ip @ fp)); k = e - int (length fp)
      in if 0 \<le> k then m * 10 ^ nat k else m / 10 ^ nat (- k))"

definition parse_decimal :: "string \<Rightarrow> rat option" where
  "parse_decimal b =
     (let ip = takeWhile is_digit b; r1 = dropWhile is_digit b
      in case (case r1 of
                 [] \<Rightarrow> ([], [])
               | c # cs \<Rightarrow>
                   if c = CHR ''.'' then (takeWhile is_digit cs, dropWhile is_digit cs)
                   else ([], r1)) of
           (fp, r2) \<Rightarrow>
             if ip @ fp = [] then None
             else (case parse_exponent r2 of
                     None \<Rightarrow> None
                   | Some e \<Rightarrow> Some (dec_value ip fp e)))"

definition parse_float_literal :: "string \<Rightarrow> pyfloat option" where
  "parse_float_literal t =
     (case split_sign t of
        (neg, b) \<Rightarrow>
          (let l = map lower_char b
           in if l = ''inf'' \<or> l = ''infinity'' then Some (if neg then NegInf else PosInf)
              else if l = ''nan'' then Some NaN
              else (case parse_decimal b of
                      None \<Rightarrow> None
                    | Some v \<Rightarrow> Some (Fin (if neg then - v else v)))))"

text \<open>\<open>float(s)\<close> for a string: \<open>None\<close> is the ValueError.\<close>

definition py_float_str :: "string \<Rightarrow> pyfloat option" where
  "py_float_str s =
     (let t = strip_with is_literal_space s
      in if underscores_ok (CHR 0x00) t
         then parse_float_literal (remove_char (CHR ''_'') t)
         else None)"

text \<open>\<open>int(s)\<close> for a string, base ten: \<open>None\<close> is the ValueError.\<close>

definition py_int_str :: "string \<Rightarrow> int option" where
  "py_int_str s =
     (case split_sign (strip_with is_literal_space s) of
        (neg, b) \<Rightarrow>
          (let ds = remove_char (CHR ''_'') b
           in if ds \<noteq> [] \<and> underscores_ok (CHR 0x00) b \<and> list_all is_digit ds
              then Some (if neg then - int (digits_val ds) else int (digits_val ds))
              else None))"

text \<open>
  \<open>float(v)\<close>. An integer too large for a double raises OverflowError: the largest
  double is \<open>2^1024 - 2^971\<close>, and rounding to nearest reaches \<open>2^1024\<close> from
  \<open>2^1024 - 2^970\<close> on.
\<close>

definition float_max_int :: int where
  "float_max_int = 2 ^ 1024 - 2 ^ 970"

fun py_float :: "pyval \<Rightarrow> exn + pyfloat" where
  "py_float PNone = Inl TypeError"
| "py_float (PBool b) = Inr (Fin (if b then 1 else 0))"
| "py_float (PInt n) =
     (if \<bar>n\<bar> < float_max_int then Inr (Fin (of_int n)) else Inl OverflowError)"
| "py_float (PFloat f) = Inr f"
| "py_float (PStr s) = (case py_float_str s of None \<Rightarrow> Inl ValueError | Some f \<Rightarrow> Inr f)"
| "py_float (PList xs) = Inl TypeError"
| "py_float (PDict d) = Inl TypeError"

text \<open>\<open>int(v)\<close>: a float is truncated towards zero.\<close>

definition trunc_rat :: "rat \<Rightarrow> int" where
  "trunc_rat r = (if 0 \<le> r then \<lfloor>r\<rfloor> else \<lceil>r\<rceil>)"

fun py_int :: "pyval \<Rightarrow> exn + int" where
  "py_int PNone = Inl TypeError"
| "py_int (PBool b) = Inr (if b then 1 else 0)"
| "py_int (PInt n) = Inr n"
| "py_int (PFloat (Fin r)) = Inr (trunc_rat r)"
| "py_int (PFloat NaN) = Inl ValueError"
| "py_int (PFloat PosInf) = Inl OverflowError"
| "py_int (PFloat NegInf) = Inl OverflowError"
| "py_int (PStr s) = (case py_int_str s of None \<Rightarrow> Inl ValueError | Some n \<Rightarrow> Inr n)"
| "py_int (PList xs) = Inl TypeError"
| "py_int (PDict d) = Inl TypeError"

text \<open>Float multiplication, exact on finite operands.\<close>

fun fl_mul :: "pyfloat \<Rightarrow> pyfloat \<Rightarrow> pyfloat" where
  "fl_mul NaN y = NaN"
| "fl_mul x NaN = NaN"
| "fl_mul (Fin a) (Fin b) = Fin (a * b)"
| "fl_mul (Fin a) PosInf = (if a = 0 then NaN else if 0 < a then PosInf else NegInf)"
| "fl_mul (Fin a) NegInf = (if a = 0 then NaN else if 0 < a then NegInf else PosInf)"
| "fl_mul PosInf (Fin b) = (if b = 0 then NaN else if 0 < b then PosInf else NegInf)"
| "fl_mul NegInf (Fin b) = (if b = 0 then NaN else if 0 < b then NegInf else PosInf)"
| "fl_mul PosInf PosInf = PosInf"
| "fl_mul PosInf NegInf = NegInf"
| "fl_mul NegInf PosInf = NegInf"
| "fl_mul NegInf NegInf = PosInf"

section \<open>Field normalizer (data_collector.py)\<close>

text \<open>
  \<open>_parse_market_value\<close>: strip, upper-case, drop \<open>$\<close> and commas; a \<open>T\<close>, \<open>B\<close> or
  \<open>M\<close> anywhere in the text selects the scale and is deleted before \<open>float\<close>; any
  exception gives the integer 0.
\<close>

definition clean_market_value :: "string \<Rightarrow> string" where
  "clean_market_value value_str =
     remove_char (CHR '','') (remove_char (CHR ''$'') (py_upper (py_strip value_str)))"

definition scaled :: "string \<Rightarrow> rat \<Rightarrow> pyval" where
  "scaled s k =
     (case py_float_str s of None \<Rightarrow> PInt 0 | Some f \<Rightarrow> PFloat (fl_mul f (Fin k)))"

definition parse_market_value :: "string \<Rightarrow> pyval" where
  "parse_market_value value_str =
     (let v = clean_market_value value_str
      in if CHR ''T'' \<in> set v then scaled (remove_char (CHR ''T'') v) (10 ^ 12)
         else if CHR ''B'' \<in> set v then scaled (remove_char (CHR ''B'') v) (10 ^ 9)
         else if CHR ''M'' \<in> set v then scaled (remove_char (CHR ''M'') v) (10 ^ 6)
         else (case py_float_str v of None \<Rightarrow> PInt 0 | Some f \<Rightarrow> PFloat f))"

text \<open>
  \<open>_safe_get_number\<close>: \<open>info.get\<close> needs a dictionary (anything else has no \<open>get\<close>);
  only ValueError and TypeError are caught.
\<close>

definition safe_get_number :: "pyval \<Rightarrow> string \<Rightarrow> pyval \<Rightarrow> exn + pyval" where
  "safe_get_number info key dflt =
     (case info of
        PDict d \<Rightarrow>
          (let v = dict_get d key dflt
           in if v = PNone then Inr dflt
              else (case py_float v of
                      Inr f \<Rightarrow> Inr (PFloat f)
                    | Inl e \<Rightarrow> if e = ValueError \<or> e = TypeError then Inr dflt else Inl e))
      | _ \<Rightarrow> Inl AttributeError)"

text \<open>
  \<open>_format_location\<close>: the truthy ones of city, state and country are joined; \<open>join\<close>
  raises TypeError on an item that is not a string, and every exception gives \<open>N/A\<close>.
\<close>

fun str_items :: "pyval list \<Rightarrow> string list option" where
  "str_items [] = Some []"
| "str_items (PStr s # vs) = (case str_items vs of None \<Rightarrow> None | Some ss \<Rightarrow> Some (s # ss))"
| "str_items (v # vs) = None"

definition format_location :: "pyval \<Rightarrow> string" where
  "format_location info =
     (case info of
        PDict d \<Rightarrow>
          (let city = dict_get d ''city'' (PStr '''');
               state = dict_get d ''state'' (PStr '''');
               country = dict_get d ''country'' (PStr '''');
               parts = filter truthy [city, state, country]
           in if parts \<noteq> [] then
                (case str_items parts of None \<Rightarrow> ''N/A'' | Some ss \<Rightarrow> py_join '', '' ss)
              else ''N/A'')
      | _ \<Rightarrow> ''N/A'')"

text \<open>
  \<open>_get_description\<close>: \<open>desc[:500] + '...' if len(desc) > 500 else desc\<close> for a truthy
  summary, else the \<open>description\<close> field, else \<open>N/A\<close>. \<open>len\<close> of a number, and a
  slice of a list or dictionary added to a string, raise; every exception gives \<open>N/A\<close>.
\<close>

definition get_description :: "pyval \<Rightarrow> pyval" where
  "get_description info =
     (case info of
        PDict d \<Rightarrow>
          (let desc = dict_get d ''longBusinessSummary'' (PStr '''')
           in if truthy desc then
                (case desc of
                   PStr s \<Rightarrow> if 500 < length s then PStr (take 500 s @ ''...'') else PStr s
                 | PList xs \<Rightarrow> if 500 < length xs then PStr ''N/A'' else PList xs
                 | PDict m \<Rightarrow> if 500 < dict_len m then PStr ''N/A'' else PDict m
                 | _ \<Rightarrow> PStr ''N/A'')
              else dict_get d ''description'' (PStr ''N/A''))
      | _ \<Rightarrow> PStr ''N/A'')"

section \<open>Collector (data_collector.py)\<close>

text \<open>Sequencing of steps that may raise: the first exception ends the evaluation.\<close>

fun and_then :: "exn + 'a \<Rightarrow> ('a \<Rightarrow> exn + 'b) \<Rightarrow> exn + 'b" where
  "and_then (Inl e) f = Inl e"
| "and_then (Inr x) f = f x"

text \<open>A dictionary display \<open>{k1: e1, k2: e2, ...}\<close> whose entries are evaluated in order.\<close>

fun build_dict :: "(string \<times> (exn + pyval)) list \<Rightarrow> exn + dict" where
  "build_dict [] = Inr []"
| "build_dict ((k, Inl e) # es) = Inl e"
| "build_dict ((k, Inr v) # es) =
     (case build_dict es of Inl e \<Rightarrow> Inl e | Inr d \<Rightarrow> Inr ((k, v) # d))"

text \<open>
  \<open>scrape_yahoo_finance_safe\<close>. The quote page is seen through the two lookups the code
  makes: the text of the \<open>regularMarketPrice\<close> element, if there is one, and the texts
  of the \<open>MARKET_CAP-value\<close> cells in document order. \<open>Failed\<close> is a request or a
  parser that raised.
\<close>

record page =
  price_text :: "string option"
  market_cap_texts :: "string list"

datatype http_result = Failed | Response nat page

definition scrape_yahoo_finance_safe :: "http_result \<Rightarrow> dict" where
  "scrape_yahoo_finance_safe r =
     (case r of
        Failed \<Rightarrow> []
      | Response status_code pg \<Rightarrow>
          if status_code \<noteq> 200 then []
          else
            (let data1 =
                   (case price_text pg of
                      None \<Rightarrow> []
                    | Some t \<Rightarrow>
                        if t \<noteq> [] then
                          (case py_float_str (remove_char (CHR '','') t) of
                             None \<Rightarrow> []
                           | Some f \<Rightarrow> dict_set [] ''current_price'' (PFloat f))
                        else [])
             in case find (\<lambda>t. t \<noteq> []) (market_cap_texts pg) of
                  None \<Rightarrow> data1
                | Some t \<Rightarrow> dict_set data1 ''market_cap'' (parse_market_value t)))"

text \<open>
  The \<open>company_data\<close> display of \<open>get_company_basic_info\<close>, built from the provider's
  field bag; \<open>now\<close> is the rendered \<open>datetime.now()\<close>.
\<close>

definition primary_profile :: "string \<Rightarrow> pyval \<Rightarrow> string \<Rightarrow> exn + dict" where
  "primary_profile symbol info now =
     (case info of
        PDict d \<Rightarrow>
          build_dict
            [(''symbol'', Inr (PStr (py_upper symbol))),
             (''company_name'',
                Inr (dict_get d ''longName'' (dict_get d ''shortName'' (PStr symbol)))),
             (''sector'', Inr (dict_get d ''sector'' (PStr ''N/A''))),
             (''industry'', Inr (dict_get d ''industry'' (PStr ''N/A''))),
             (''market_cap'', safe_get_number info ''marketCap'' (PInt 0)),
             (''enterprise_value'', safe_get_number info ''enterpriseValue'' (PInt 0)),
             (''revenue'', safe_get_number info ''totalRevenue'' (PInt 0)),
             (''employees'', safe_get_number info ''fullTimeEmployees'' (PInt 0)),
             (''founded_year'', Inr (PInt 0)),
             (''headquarters'', Inr (PStr (format_location info))),
             (''website'', Inr (dict_get d ''website'' (PStr ''N/A''))),
             (''description'', Inr (get_description info)),
             (''current_price'', safe_get_number info ''currentPrice'' (PInt 0)),
             (''previous_close'', safe_get_number info ''previousClose'' (PInt 0)),
             (''volume'', safe_get_number info ''volume'' (PInt 0)),
             (''avg_volume'', safe_get_number info ''averageVolume'' (PInt 0)),
             (''pe_ratio'', safe_get_number info ''trailingPE'' (PInt 0)),
             (''pb_ratio'', safe_get_number info ''priceToBook'' (PInt 0)),
             (''dividend_yield'', safe_get_number info ''dividendYield'' (PInt 0)),
             (''last_updated'', Inr (PStr now))]
      | _ \<Rightarrow> Inl AttributeError)"

text \<open>The merge loop over \<open>scraped.items()\<close>.\<close>

definition overwrites :: "dict \<Rightarrow> string \<Rightarrow> pyval \<Rightarrow> bool" where
  "overwrites company_data key v =
     (truthy v \<and>
      (\<not> truthy (dict_get company_data key PNone) \<or>
       in_sentinels (dict_get company_data key PNone)))"

fun merge_scraped :: "dict \<Rightarrow> dict \<Rightarrow> dict" where
  "merge_scraped company_data [] = company_data"
| "merge_scraped company_data ((key, v) # rest) =
     merge_scraped
       (if overwrites company_data key v then dict_set company_data key v else company_data)
       rest"

text \<open>\<open>len(info)\<close>; a number has no length.\<close>

fun py_len :: "pyval \<Rightarrow> exn + nat" where
  "py_len (PStr s) = Inr (length s)"
| "py_len (PList xs) = Inr (length xs)"
| "py_len (PDict d) = Inr (dict_len d)"
| "py_len _ = Inl TypeError"

text \<open>
  \<open>get_company_basic_info\<close>: \<open>ticker_info\<close> is what \<open>yf.Ticker(symbol).info\<close> gives
  (or raises), \<open>resp\<close> the answer to the quote-page request. \<open>None\<close> is Python's
  \<open>None\<close>.
\<close>

definition get_company_basic_info ::
  "string \<Rightarrow> exn + pyval \<Rightarrow> http_result \<Rightarrow> string \<Rightarrow> dict option" where
  "get_company_basic_info symbol ticker_info resp now =
     (case ticker_info of
        Inl e \<Rightarrow> None
      | Inr info \<Rightarrow>
          if \<not> truthy info then None
          else
            (case py_len info of
               Inl e \<Rightarrow> None
             | Inr n \<Rightarrow>
                 if n < 5 then None
                 else
                   (case primary_profile symbol info now of
                      Inl e \<Rightarrow> None
                    | Inr company_data \<Rightarrow>
                        (let scraped = scrape_yahoo_finance_safe resp
                         in if scraped \<noteq> [] then Some (merge_scraped company_data scraped)
                            else Some company_data))))"

text \<open>
  \<open>get_executives\<close>: the first five officers; an officer that is not a dictionary, or an
  officers value that is truthy and not a sequence of them, raises, and the result is the
  empty list.
\<close>

fun officer_entries :: "pyval list \<Rightarrow> dict list option" where
  "officer_entries [] = Some []"
| "officer_entries (PDict officer # rest) =
     (case officer_entries rest of
        None \<Rightarrow> None
      | Some es \<Rightarrow>
          Some ([(''name'', dict_get officer ''name'' (PStr ''N/A'')),
                 (''title'', dict_get officer ''title'' (PStr ''N/A'')),
                 (''age'', dict_get officer ''age'' (PInt 0)),
                 (''total_pay'', dict_get officer ''totalPay'' (PInt 0))] # es))"
| "officer_entries (v # rest) = None"

definition get_executives :: "exn + pyval \<Rightarrow> dict list" where
  "get_executives ticker_info =
     (case ticker_info of
        Inr (PDict d) \<Rightarrow>
          (case map_of d ''companyOfficers'' of
             Some (PList officers) \<Rightarrow>
               (case officer_entries (take 5 officers) of None \<Rightarrow> [] | Some es \<Rightarrow> es)
           | _ \<Rightarrow> [])
      | _ \<Rightarrow> [])"

text \<open>\<open>get_financial_ratios\<close>: twelve fields through \<open>_safe_get_number\<close>, or \<open>{}\<close>.\<close>

definition ratio_fields :: "(string \<times> string) list" where
  "ratio_fields =
     [(''pe_ratio'', ''trailingPE''),
      (''forward_pe'', ''forwardPE''),
      (''peg_ratio'', ''pegRatio''),
      (''price_to_sales'', ''priceToSalesTrailing12Months''),
      (''price_to_book'', ''priceToBook''),
      (''debt_to_equity'', ''debtToEquity''),
      (''roe'', ''returnOnEquity''),
      (''roa'', ''returnOnAssets''),
      (''profit_margin'', ''profitMargins''),
      (''operating_margin'', ''operatingMargins''),
      (''current_ratio'', ''currentRatio''),
      (''quick_ratio'', ''quickRatio'')]"

definition get_financial_ratios :: "exn + pyval \<Rightarrow> dict" where
  "get_financial_ratios ticker_info =
     (case ticker_info of
        Inl e \<Rightarrow> []
      | Inr info \<Rightarrow>
          (case build_dict
                  (map (\<lambda>(name, field). (name, safe_get_number info field (PInt 0)))
                     ratio_fields) of
             Inl e \<Rightarrow> []
           | Inr ratios \<Rightarrow> ratios))"

text \<open>
  \<open>get_stock_history\<close>. A data frame is its rows in order, each an index label and the
  row's columns. A label is a timestamp, given by its \<open>%Y-%m-%d\<close> rendering, or something
  that has no \<open>strftime\<close>.
\<close>

datatype label = Timestamp string | OtherLabel

type_synonym frame = "(label \<times> dict) list"

definition get_stock_history :: "string \<Rightarrow> exn + frame \<Rightarrow> frame" where
  "get_stock_history symbol history =
     (case history of
        Inl e \<Rightarrow> []
      | Inr hist \<Rightarrow> map (\<lambda>(l, row). (l, dict_set row ''symbol'' (PStr symbol))) hist)"

section \<open>Store (database_manager.py)\<close>

text \<open>
  A stored value, and the binding of a Python value to a statement parameter: an integer
  must fit 64 bits, a NaN is stored as NULL, a list or dictionary cannot be bound. A row
  holds the values as bound; the conversion that a column's declared type then applies is
  the same on every write and is not modelled.
\<close>

datatype sqlval = Null | SInt int | SReal pyfloat | SText string

fun bind :: "pyval \<Rightarrow> exn + sqlval" where
  "bind PNone = Inr Null"
| "bind (PBool b) = Inr (SInt (if b then 1 else 0))"
| "bind (PInt n) =
     (if - (2 ^ 63) \<le> n \<and> n < 2 ^ 63 then Inr (SInt n) else Inl OverflowError)"
| "bind (PFloat f) = Inr (if f = NaN then Null else SReal f)"
| "bind (PStr s) = Inr (SText s)"
| "bind (PList xs) = Inl BindingError"
| "bind (PDict d) = Inl BindingError"

fun bind_all :: "pyval list \<Rightarrow> exn + sqlval list" where
  "bind_all [] = Inr []"
| "bind_all (v # vs) =
     (case bind v of
        Inl e \<Rightarrow> Inl e
      | Inr x \<Rightarrow> (case bind_all vs of Inl e \<Rightarrow> Inl e | Inr xs \<Rightarrow> Inr (x # xs)))"

text \<open>
  The four tables of \<open>init_database\<close>. Every table has an AUTOINCREMENT key, whose last
  value the store keeps, and a \<open>created_at\<close> column that defaults to the store's clock.
  \<open>companies.symbol\<close> is UNIQUE and NOT NULL. The columns that an INSERT names are kept
  in the order of its column list.
\<close>

record company_row =
  c_id :: nat
  c_symbol :: sqlval
  c_values :: "sqlval list"
  c_created_at :: string

record history_row =
  h_id :: nat
  h_symbol :: string
  h_date :: string
  h_open_price :: sqlval
  h_high_price :: sqlval
  h_low_price :: sqlval
  h_close_price :: sqlval
  h_volume :: sqlval
  h_created_at :: string

record executive_row =
  e_id :: nat
  e_symbol :: string
  e_name :: sqlval
  e_title :: sqlval
  e_age :: sqlval
  e_total_pay :: sqlval
  e_created_at :: string

record ratios_row =
  r_id :: nat
  r_symbol :: string
  r_values :: "sqlval list"
  r_created_at :: string

record database =
  companies :: "company_row list"
  companies_seq :: nat
  stock_history :: "history_row list"
  stock_history_seq :: nat
  executives :: "executive_row list"
  executives_seq :: nat
  financial_ratios :: "ratios_row list"
  financial_ratios_seq :: nat

text \<open>
  \<open>insert_company_data\<close>. The parameters of the statement, symbol first; \<open>now\<close> is the
  rendered \<open>datetime.now()\<close>, \<open>ts\<close> the store's CURRENT_TIMESTAMP. INSERT OR REPLACE
  deletes the rows whose symbol equals the new one and appends the new row under a fresh
  key. A failed statement is never committed, the store stays as it was, and the
  function returns False.
\<close>

definition company_params :: "string \<Rightarrow> dict \<Rightarrow> pyval list" where
  "company_params now company_data =
     [dict_get company_data ''symbol'' PNone,
      dict_get company_data ''company_name'' PNone,
      dict_get company_data ''sector'' PNone,
      dict_get company_data ''industry'' PNone,
      dict_get company_data ''market_cap'' (PInt 0),
      dict_get company_data ''enterprise_value'' (PInt 0),
      dict_get company_data ''revenue'' (PInt 0),
      dict_get company_data ''employees'' (PInt 0),
      dict_get company_data ''founded_year'' (PInt 0),
      dict_get company_data ''headquarters'' (PStr []),
      dict_get company_data ''website'' (PStr []),
      dict_get company_data ''description'' (PStr []),
      dict_get company_data ''current_price'' (PInt 0),
      dict_get company_data ''previous_close'' (PInt 0),
      dict_get company_data ''volume'' (PInt 0),
      dict_get company_data ''avg_volume'' (PInt 0),
      dict_get company_data ''pe_ratio'' (PInt 0),
      dict_get company_data ''pb_ratio'' (PInt 0),
      dict_get company_data ''dividend_yield'' (PInt 0),
      dict_get company_data ''last_updated'' (PStr now)]"

definition insert_company_data ::
  "string \<Rightarrow> string \<Rightarrow> dict \<Rightarrow> database \<Rightarrow> bool \<times> database" where
  "insert_company_data now ts company_data db =
     (case bind_all (company_params now company_data) of
        Inl e \<Rightarrow> (False, db)
      | Inr [] \<Rightarrow> (False, db)
      | Inr (symb # vals) \<Rightarrow>
          if symb = Null then (False, db)
          else
            (True,
             db\<lparr>companies :=
                  filter (\<lambda>r. c_symbol r \<noteq> symb) (companies db) @
                  [\<lparr>c_id = Suc (companies_seq db), c_symbol = symb, c_values = vals,
                    c_created_at = ts\<rparr>],
                companies_seq := Suc (companies_seq db)\<rparr>))"

text \<open>
  \<open>insert_stock_history\<close>: DELETE the symbol's rows, then one INSERT per row of the
  frame; a row whose label has no \<open>strftime\<close>, or whose values \<open>float\<close>, \<open>int\<close> or the
  binding reject, raises and nothing is committed.
\<close>

definition history_values ::
  "label \<times> dict \<Rightarrow> exn + (string \<times> sqlval \<times> sqlval \<times> sqlval \<times> sqlval \<times> sqlval)" where
  "history_values r =
     (case r of
        (OtherLabel, row) \<Rightarrow> Inl AttributeError
      | (Timestamp date, row) \<Rightarrow>
          and_then (py_float (dict_get row ''Open'' (PInt 0))) (\<lambda>op.
          and_then (py_float (dict_get row ''High'' (PInt 0))) (\<lambda>hi.
          and_then (py_float (dict_get row ''Low'' (PInt 0))) (\<lambda>lo.
          and_then (py_float (dict_get row ''Close'' (PInt 0))) (\<lambda>cl.
          and_then (py_int (dict_get row ''Volume'' (PInt 0))) (\<lambda>vol.
          and_then (bind (PFloat op)) (\<lambda>b_op.
          and_then (bind (PFloat hi)) (\<lambda>b_hi.
          and_then (bind (PFloat lo)) (\<lambda>b_lo.
          and_then (bind (PFloat cl)) (\<lambda>b_cl.
          and_then (bind (PInt vol)) (\<lambda>b_vol.
            Inr (date, b_op, b_hi, b_lo, b_cl, b_vol))))))))))))"

fun insert_history_rows ::
  "string \<Rightarrow> string \<Rightarrow> (label \<times> dict) list \<Rightarrow> history_row list \<times> nat \<Rightarrow>
   exn + (history_row list \<times> nat)" where
  "insert_history_rows symbol ts [] (rows, seq) = Inr (rows, seq)"
| "insert_history_rows symbol ts (r # rs) (rows, seq) =
     (case history_values r of
        Inl e \<Rightarrow> Inl e
      | Inr (date, op, hi, lo, cl, vol) \<Rightarrow>
          insert_history_rows symbol ts rs
            (rows @
             [\<lparr>h_id = Suc seq, h_symbol = symbol, h_date = date, h_open_price = op,
               h_high_price = hi, h_low_price = lo, h_close_price = cl, h_volume = vol,
               h_created_at = ts\<rparr>],
             Suc seq))"

definition insert_stock_history ::
  "string \<Rightarrow> string \<Rightarrow> frame \<Rightarrow> database \<Rightarrow> bool \<times> database" where
  "insert_stock_history ts symbol stock_df db =
     (case insert_history_rows symbol ts stock_df
             (filter (\<lambda>r. h_symbol r \<noteq> symbol) (stock_history db), stock_history_seq db) of
        Inl e \<Rightarrow> (False, db)
      | Inr (rows, seq) \<Rightarrow> (True, db\<lparr>stock_history := rows, stock_history_seq := seq\<rparr>))"

text \<open>\<open>insert_executives\<close>: the same discipline on the executives table.\<close>

definition executive_values :: "dict \<Rightarrow> exn + sqlval list" where
  "executive_values exec_data =
     bind_all
       [dict_get exec_data ''name'' (PStr []),
        dict_get exec_data ''title'' (PStr []),
        dict_get exec_data ''age'' (PInt 0),
        dict_get exec_data ''total_pay'' (PInt 0)]"

fun insert_executive_rows ::
  "string \<Rightarrow> string \<Rightarrow> dict list \<Rightarrow> executive_row list \<times> nat \<Rightarrow>
   exn + (executive_row list \<times> nat)" where
  "insert_executive_rows symbol ts [] (rows, seq) = Inr (rows, seq)"
| "insert_executive_rows symbol ts (exec_data # rest) (rows, seq) =
     (case executive_values exec_data of
        Inr [name, title, age, total_pay] \<Rightarrow>
          insert_executive_rows symbol ts rest
            (rows @
             [\<lparr>e_id = Suc seq, e_symbol = symbol, e_name = name, e_title = title,
               e_age = age, e_total_pay = total_pay, e_created_at = ts\<rparr>],
             Suc seq)
      | Inr other \<Rightarrow> Inl BindingError
      | Inl e \<Rightarrow> Inl e)"

definition insert_executives ::
  "string \<Rightarrow> string \<Rightarrow> dict list \<Rightarrow> database \<Rightarrow> bool \<times> database" where
  "insert_executives ts symbol execs db =
     (case insert_executive_rows symbol ts execs
             (filter (\<lambda>r. e_symbol r \<noteq> symbol) (executives db), executives_seq db) of
        Inl e \<Rightarrow> (False, db)
      | Inr (rows, seq) \<Rightarrow> (True, db\<lparr>executives := rows, executives_seq := seq\<rparr>))"

text \<open>\<open>insert_financial_ratios\<close>: DELETE the symbol's rows, then a single INSERT.\<close>

definition ratios_params :: "dict \<Rightarrow> pyval list" where
  "ratios_params ratios = map (\<lambda>(name, field). dict_get ratios name (PInt 0)) ratio_fields"

definition insert_financial_ratios ::
  "string \<Rightarrow> string \<Rightarrow> dict \<Rightarrow> database \<Rightarrow> bool \<times> database" where
  "insert_financial_ratios ts symbol ratios db =
     (case bind_all (ratios_params ratios) of
        Inl e \<Rightarrow> (False, db)
      | Inr vals \<Rightarrow>
          (True,
           db\<lparr>financial_ratios :=
                filter (\<lambda>r. r_symbol r \<noteq> symbol) (financial_ratios db) @
                [\<lparr>r_id = Suc (financial_ratios_seq db), r_symbol = symbol, r_values = vals,
                  r_created_at = ts\<rparr>],
              financial_ratios_seq := Suc (financial_ratios_seq db)\<rparr>))"

section \<open>Collection loop (app.py)\<close>

text \<open>
  What the outside world answers while one symbol is processed: the provider's field bag
  at each of the three reads, the quote page, the price history, and the two clocks.
\<close>

record feeds =
  profile_info :: "exn + pyval"
  quote_page :: http_result
  officers_info :: "exn + pyval"
  ratios_info :: "exn + pyval"
  history :: "exn + frame"
  clock :: string
  db_clock :: string

record tally =
  successful :: nat
  failed :: nat
  failed_companies :: "string list"

text \<open>
  The body of the loop of \<open>collect_industry_data\<close> for one symbol (progress display left
  out), and the loop.
\<close>

definition collect_symbol :: "string \<Rightarrow> feeds \<Rightarrow> tally \<times> database \<Rightarrow> tally \<times> database" where
  "collect_symbol symbol f s =
     (case s of
        (t, db) \<Rightarrow>
          (case get_company_basic_info symbol (profile_info f) (quote_page f) (clock f) of
             None \<Rightarrow>
               (t\<lparr>failed := failed t + 1, failed_companies := failed_companies t @ [symbol]\<rparr>,
                db)
           | Some company_data \<Rightarrow>
               if company_data = [] then
                 (t\<lparr>failed := failed t + 1,
                    failed_companies := failed_companies t @ [symbol]\<rparr>, db)
               else
                 (let db1 = snd (insert_company_data (clock f) (db_clock f) company_data db);
                      execs = get_executives (officers_info f);
                      db2 = (if execs \<noteq> []
                             then snd (insert_executives (db_clock f) symbol execs db1)
                             else db1);
                      ratios = get_financial_ratios (ratios_info f);
                      db3 = (if ratios \<noteq> []
                             then snd (insert_financial_ratios (db_clock f) symbol ratios db2)
                             else db2);
                      hist = get_stock_history symbol (history f);
                      db4 = (if hist \<noteq> []
                             then snd (insert_stock_history (db_clock f) symbol hist db3)
                             else db3)
                  in (t\<lparr>successful := successful t + 1\<rparr>, db4))))"

fun collect_industry_data ::
  "(string \<times> feeds) list \<Rightarrow> tally \<times> database \<Rightarrow> tally \<times> database" where
  "collect_industry_data [] s = s"
| "collect_industry_data ((symbol, f) # rest) s =
     collect_industry_data rest (collect_symbol symbol f s)"

section \<open>Vocabulary of the specification\<close>

text \<open>
  The words in which the specification states its properties. The unset sentinels of the
  merge policy are 0, \<open>N/A\<close> and the empty string.
\<close>

definition unset_sentinel :: "pyval \<Rightarrow> bool" where
  "unset_sentinel v = (v = PInt 0 \<or> v = PFloat (Fin 0) \<or> v = PStr ''N/A'' \<or> v = PStr [])"

fun is_number :: "pyval \<Rightarrow> bool" where
  "is_number (PInt n) = True"
| "is_number (PFloat f) = True"
| "is_number v = False"

text \<open>An optional string field of a bag: absent, null or a string; and its text.\<close>

definition optional_str :: "dict \<Rightarrow> string \<Rightarrow> bool" where
  "optional_str d k =
     (case map_of d k of
        None \<Rightarrow> True
      | Some PNone \<Rightarrow> True
      | Some (PStr s) \<Rightarrow> True
      | Some v \<Rightarrow> False)"

definition field_str :: "dict \<Rightarrow> string \<Rightarrow> string" where
  "field_str d k = (case map_of d k of Some (PStr s) \<Rightarrow> s | _ \<Rightarrow> [])"


definition history_of :: "database \<Rightarrow> string \<Rightarrow> history_row list" where
  "history_of db s = filter (\<lambda>r. h_symbol r = s) (stock_history db)"

definition executives_of :: "database \<Rightarrow> string \<Rightarrow> executive_row list" where
  "executives_of db s = filter (\<lambda>r. e_symbol r = s) (executives db)"


text \<open>The two fields that the scraper can return.\<close>

definition is_scraped_key :: "string \<Rightarrow> bool" where
  "is_scraped_key k = (k = ''current_price'' \<or> k = ''market_cap'')"




section \<open>Sample data\<close>

text \<open>Concrete inputs on which the theorems below are exercised.\<close>

definition sample_db :: database where
  "sample_db =
     \<lparr>companies = [], companies_seq = 0,
      stock_history =
        [\<lparr>h_id = 1, h_symbol = ''AAA'', h_date = ''2024-01-02'', h_open_price = SReal (Fin 1),
          h_high_price = SReal (Fin 2), h_low_price = SReal (Fin 1),
          h_close_price = SReal (Fin 2), h_volume = SInt 10, h_created_at = ''t0''\<rparr>,
         \<lparr>h_id = 2, h_symbol = ''AAA'', h_date = ''2024-01-03'', h_open_price = SReal (Fin 2),
          h_high_price = SReal (Fin 3), h_low_price = SReal (Fin 2),
          h_close_price = SReal (Fin 3), h_volume = SInt 20, h_created_at = ''t0''\<rparr>,
         \<lparr>h_id = 3, h_symbol = ''BBB'', h_date = ''2024-01-03'', h_open_price = SReal (Fin 7),
          h_high_price = SReal (Fin 8), h_low_price = SReal (Fin 7),
          h_close_price = SReal (Fin 8), h_volume = SInt 30, h_created_at = ''t0''\<rparr>],
      stock_history_seq = 3, executives = [], executives_seq = 0,
      financial_ratios = [], financial_ratios_seq = 0\<rparr>"



definition sample_info :: pyval where
  "sample_info =
     PDict [(''longName'', PStr ''Alpha Corp''), (''sector'', PStr ''Technology''),
            (''industry'', PStr ''Software''), (''marketCap'', PInt 0),
            (''currentPrice'', PFloat (Fin 150)), (''city'', PStr ''Austin''),
            (''country'', PStr ''USA'')]"

definition sample_page :: http_result where
  "sample_page = Response 200 \<lparr>price_text = Some ''151.25'', market_cap_texts = ['''', ''2.5T'']\<rparr>"



section \<open>Sequencing and binding\<close>




section \<open>The companies table\<close>










section \<open>The history and executives tables\<close>






text \<open>
  Claim C10. Replacing the history or the executives of a symbol with an empty sequence
  succeeds: the call returns True, the symbol is left with no row at all, nothing is
  inserted, and the rows of the other symbols stay.
\<close>

theorem empty_replace_clears:
  "insert_stock_history ts symbol [] db =
     (True, db\<lparr>stock_history := filter (\<lambda>r. h_symbol r \<noteq> symbol) (stock_history db)\<rparr>) \<and>
   history_of (snd (insert_stock_history ts symbol [] db)) symbol = [] \<and>
   insert_executives ts symbol [] db =
     (True, db\<lparr>executives := filter (\<lambda>r. e_symbol r \<noteq> symbol) (executives db)\<rparr>) \<and>
   executives_of (snd (insert_executives ts symbol [] db)) symbol = []"
  by (simp add: insert_stock_history_def insert_executives_def history_of_def
      executives_of_def)

theorem empty_replace_clears_witness:
  "history_of sample_db ''AAA'' \<noteq> [] \<and>
   fst (insert_stock_history ''t1'' ''AAA'' [] sample_db) \<and>
   history_of (snd (insert_stock_history ''t1'' ''AAA'' [] sample_db)) ''AAA'' = [] \<and>
   length (stock_history (snd (insert_stock_history ''t1'' ''AAA'' [] sample_db))) = 1"
  using empty_replace_clears [of "''t1''" "''AAA''" sample_db]
  by (simp add: history_of_def sample_db_def)

section \<open>Float literals and market values\<close>

























lemmas market_eval = parse_market_value_def clean_market_value_def scaled_def py_float_str_def
  parse_float_literal_def parse_decimal_def parse_exponent_def dec_value_def digits_val_def
  digit_val_def is_digit_def remove_char_def py_upper_def upper_char_def lower_char_def
  py_strip_def strip_with_def is_space_def is_literal_space_def




section \<open>Numeric fields\<close>




lemma safe_get_number_number:
  "safe_get_number info k (PInt 0) = Inr v \<Longrightarrow> is_number v"
  by (auto simp: safe_get_number_def Let_def split: pyval.splits if_splits sum.splits)



text \<open>
  Claim C6. The numeric extractor (\<open>_safe_get_number\<close>) does not return for every
  input: \<open>float\<close> of an integer beyond the range of a double raises OverflowError, which
  the handler for ValueError and TypeError lets through. On the bag
  \<open>{'marketCap': 10**400}\<close>, key \<open>marketCap\<close> and default 0 the call raises.
\<close>

theorem safe_get_number_overflow:
  "safe_get_number (PDict [(''marketCap'', PInt (10 ^ 400))]) ''marketCap'' (PInt 0) =
     Inl OverflowError"
  by (simp add: safe_get_number_def dict_get_def float_max_int_def)

section \<open>Ratios\<close>




lemma build_dict_lookup:
  "build_dict es = Inr d \<Longrightarrow> map_of es k = Some r \<Longrightarrow>
     \<exists>v. r = Inr v \<and> map_of d k = Some v"
  by (induction es arbitrary: d rule: build_dict.induct) (auto split: sum.splits if_splits)








section \<open>Description and location\<close>

text \<open>
  Claim C8, as stated, fails: a business summary of 501 characters gives a description
  of 503 characters, above the cap of 500.
\<close>

theorem description_exceeds_cap:
  "get_description (PDict [(''longBusinessSummary'', PStr (replicate 501 (CHR ''a'')))]) =
     PStr (replicate 500 (CHR ''a'') @ ''...'') \<and>
   length (replicate 500 (CHR ''a'') @ ''...'') = 503"
  by (simp add: get_description_def dict_get_def)

text \<open>
  Claim C8, amended. The description (\<open>_get_description\<close>) of a bag with a non-empty
  business summary is the summary itself when it has at most 500 characters, and its
  first 500 characters followed by \<open>...\<close> otherwise, so it has at most 503 characters.
  When the summary is absent, null or empty, the description is the bag's \<open>description\<close>
  field as it is, and \<open>N/A\<close> when there is none.
\<close>

theorem description_format:
  "(map_of d ''longBusinessSummary'' = Some (PStr s) \<and> s \<noteq> [] \<longrightarrow>
      get_description (PDict d) = PStr (if 500 < length s then take 500 s @ ''...'' else s) \<and>
      (\<exists>t. get_description (PDict d) = PStr t \<and> length t \<le> 503)) \<and>
   (map_of d ''longBusinessSummary'' \<in> {None, Some PNone, Some (PStr [])} \<longrightarrow>
      get_description (PDict d) =
        (case map_of d ''description'' of None \<Rightarrow> PStr ''N/A'' | Some v \<Rightarrow> v))"
  by (auto simp: get_description_def dict_get_def)

theorem description_format_witness:
  "get_description (PDict [(''longBusinessSummary'', PStr ''Makes software.'')]) =
     PStr ''Makes software.'' \<and>
   get_description (PDict [(''description'', PStr ''A company.'')]) = PStr ''A company.'' \<and>
   get_description (PDict []) = PStr ''N/A''"
  using description_format [of "[(''longBusinessSummary'', PStr ''Makes software.'')]"
      "''Makes software.''"]
    description_format [of "[(''description'', PStr ''A company.'')]" "[]"]
    description_format [of "[]" "[]"]
  by simp

lemma py_join_nonempty: "xs \<noteq> [] \<Longrightarrow> hd xs \<noteq> [] \<Longrightarrow> py_join sep xs \<noteq> []"
  by (induction sep xs rule: py_join.induct) auto

lemma optional_str_get:
  "optional_str d k \<Longrightarrow>
     dict_get d k (PStr []) = PNone \<and> field_str d k = [] \<or>
     dict_get d k (PStr []) = PStr (field_str d k)"
  by (auto simp: optional_str_def dict_get_def field_str_def split: option.splits pyval.splits)

text \<open>
  Claim C9. Location formatting (\<open>_format_location\<close>). For a bag whose city, state and
  country are each absent, null or a string, the result is the non-empty ones joined
  with a comma and a space, in the order city, state, country, and \<open>N/A\<close> when all are
  empty; it is never the empty string.
\<close>

theorem format_location_joins:
  assumes "optional_str d ''city''" "optional_str d ''state''" "optional_str d ''country''"
  shows "format_location (PDict d) =
           (let parts = filter (\<lambda>s. s \<noteq> [])
                          [field_str d ''city'', field_str d ''state'', field_str d ''country'']
            in if parts = [] then ''N/A'' else py_join '', '' parts) \<and>
         format_location (PDict d) \<noteq> []"
proof -
  let ?parts = "filter (\<lambda>s. s \<noteq> [])
                  [field_str d ''city'', field_str d ''state'', field_str d ''country'']"
  have eq: "format_location (PDict d) =
      (if ?parts = [] then ''N/A'' else py_join '', '' ?parts)"
    using optional_str_get [OF assms(1)] optional_str_get [OF assms(2)]
      optional_str_get [OF assms(3)]
    by (auto simp: format_location_def Let_def)
  have ne: "?parts \<noteq> [] \<Longrightarrow> py_join '', '' ?parts \<noteq> []"
    by (rule py_join_nonempty) (auto split: if_splits)
  from eq ne show ?thesis by (auto simp: Let_def)
qed

theorem format_location_joins_witness:
  "format_location
     (PDict [(''city'', PStr ''Austin''), (''state'', PStr []), (''country'', PStr ''USA'')]) =
     ''Austin, USA'' \<and>
   format_location (PDict []) = ''N/A''"
proof -
  have a: "optional_str
             [(''city'', PStr ''Austin''), (''state'', PStr []), (''country'', PStr ''USA'')] k"
    for k
    by (simp add: optional_str_def)
  have b: "optional_str [] k" for k
    by (simp add: optional_str_def)
  from format_location_joins [OF a a a] format_location_joins [OF b b b] show ?thesis
    by (simp add: field_str_def)
qed

section \<open>Collection of one symbol\<close>



section \<open>Merge of the scraped supplement\<close>

lemma map_of_dict_set: "map_of (dict_set d k v) = (map_of d)(k \<mapsto> v)"
  by (simp add: dict_set_def update_conv')

lemma merge_scraped_other:
  "key \<notin> fst ` set sc \<Longrightarrow> map_of (merge_scraped cd sc) key = map_of cd key"
  by (induction cd sc rule: merge_scraped.induct) (auto simp: map_of_dict_set)

text \<open>The loop decides each key of the supplement once, against the primary value.\<close>

lemma merge_scraped_key:
  "distinct (map fst sc) \<Longrightarrow> (key, v) \<in> set sc \<Longrightarrow>
     map_of (merge_scraped cd sc) key = (if overwrites cd key v then Some v else map_of cd key)"
proof (induction cd sc rule: merge_scraped.induct)
  case (1 cd)
  then show ?case by simp
next
  case (2 cd k w rest)
  let ?cd' = "if overwrites cd k w then dict_set cd k w else cd"
  show ?case
  proof (cases "k = key")
    case True
    with 2 have w: "w = v" and notin: "key \<notin> fst ` set rest"
      by (auto simp: rev_image_eqI)
    show ?thesis
      using True w merge_scraped_other [OF notin] by (simp add: map_of_dict_set)
  next
    case False
    with 2 have IH: "map_of (merge_scraped ?cd' rest) key =
       (if overwrites ?cd' key v then Some v else map_of ?cd' key)"
      by auto
    have same: "map_of ?cd' key = map_of cd key"
      using False by (simp add: map_of_dict_set)
    then have ov: "overwrites ?cd' key v = overwrites cd key v"
      by (simp add: overwrites_def dict_get_def)
    show ?thesis using IH same ov by simp
  qed
qed

lemma dict_set_distinct:
  "distinct (map fst d) \<Longrightarrow> distinct (map fst (dict_set d k v))"
  by (simp add: dict_set_def distinct_update)

lemma dict_set_mem:
  "(a, b) \<in> set (dict_set d k v) \<Longrightarrow> a = k \<or> (a, b) \<in> set d"
  unfolding dict_set_def by (induction d) (auto split: if_splits)

text \<open>The scraper returns each of its two fields at most once, and nothing else.\<close>

lemma scrape_keys:
  "distinct (map fst (scrape_yahoo_finance_safe resp)) \<and>
   list_all (\<lambda>e. is_scraped_key (fst e)) (scrape_yahoo_finance_safe resp)"
proof (cases resp)
  case Failed
  then show ?thesis by (simp add: scrape_yahoo_finance_safe_def)
next
  case (Response code pg)
  define data1 where "data1 =
     (case price_text pg of
        None \<Rightarrow> []
      | Some t \<Rightarrow>
          if t \<noteq> [] then
            (case py_float_str (remove_char (CHR '','') t) of
               None \<Rightarrow> []
             | Some f \<Rightarrow> dict_set [] ''current_price'' (PFloat f))
          else [])"
  have d1: "distinct (map fst data1) \<and> list_all (\<lambda>e. is_scraped_key (fst e)) data1"
    by (simp add: data1_def dict_set_def is_scraped_key_def split: option.splits)
  have "scrape_yahoo_finance_safe resp = [] \<or> scrape_yahoo_finance_safe resp = data1 \<or>
        (\<exists>v. scrape_yahoo_finance_safe resp = dict_set data1 ''market_cap'' v)"
    by (auto simp: Response scrape_yahoo_finance_safe_def data1_def Let_def
        split: option.splits)
  moreover have "list_all (\<lambda>e. is_scraped_key (fst e)) (dict_set data1 ''market_cap'' v)" for v
    using d1 dict_set_mem [of _ _ data1 "''market_cap''" v]
    by (fastforce simp: list_all_iff is_scraped_key_def)
  ultimately show ?thesis
    using d1 by (auto simp: dict_set_distinct)
qed

text \<open>In the primary profile both of these fields are numbers.\<close>

lemma primary_profile_numbers:
  assumes "primary_profile symbol info now = Inr cd"
      and "is_scraped_key key"
  shows "\<exists>cur. map_of cd key = Some cur \<and> is_number cur"
proof -
  from assms(1) obtain d where d: "info = PDict d"
    by (cases info) (auto simp: primary_profile_def)
  note bd = assms(1) [unfolded d primary_profile_def pyval.case]
  from assms(2) [unfolded is_scraped_key_def] obtain field where
    "map_of [(''symbol'', Inr (PStr (py_upper symbol))),
             (''company_name'',
                Inr (dict_get d ''longName'' (dict_get d ''shortName'' (PStr symbol)))),
             (''sector'', Inr (dict_get d ''sector'' (PStr ''N/A''))),
             (''industry'', Inr (dict_get d ''industry'' (PStr ''N/A''))),
             (''market_cap'', safe_get_number (PDict d) ''marketCap'' (PInt 0)),
             (''enterprise_value'', safe_get_number (PDict d) ''enterpriseValue'' (PInt 0)),
             (''revenue'', safe_get_number (PDict d) ''totalRevenue'' (PInt 0)),
             (''employees'', safe_get_number (PDict d) ''fullTimeEmployees'' (PInt 0)),
             (''founded_year'', Inr (PInt 0)),
             (''headquarters'', Inr (PStr (format_location (PDict d)))),
             (''website'', Inr (dict_get d ''website'' (PStr ''N/A''))),
             (''description'', Inr (get_description (PDict d))),
             (''current_price'', safe_get_number (PDict d) ''currentPrice'' (PInt 0)),
             (''previous_close'', safe_get_number (PDict d) ''previousClose'' (PInt 0)),
             (''volume'', safe_get_number (PDict d) ''volume'' (PInt 0)),
             (''avg_volume'', safe_get_number (PDict d) ''averageVolume'' (PInt 0)),
             (''pe_ratio'', safe_get_number (PDict d) ''trailingPE'' (PInt 0)),
             (''pb_ratio'', safe_get_number (PDict d) ''priceToBook'' (PInt 0)),
             (''dividend_yield'', safe_get_number (PDict d) ''dividendYield'' (PInt 0)),
             (''last_updated'', Inr (PStr now))] key =
       Some (safe_get_number (PDict d) field (PInt 0))"
    by auto
  from build_dict_lookup [OF bd this] obtain cur where
    "safe_get_number (PDict d) field (PInt 0) = Inr cur" "map_of cd key = Some cur"
    by blast
  with safe_get_number_number show ?thesis by blast
qed

text \<open>On a number, the test of the loop is the test of the specification.\<close>

lemma overwrites_number:
  "map_of cd key = Some cur \<Longrightarrow> is_number cur \<Longrightarrow>
     overwrites cd key v \<longleftrightarrow> truthy v \<and> unset_sentinel cur"
  by (cases cur) (auto simp: overwrites_def in_sentinels_def unset_sentinel_def dict_get_def)

text \<open>
  Claim C1. The merge policy of \<open>get_company_basic_info\<close>. For every field that the
  scraped supplement returns, the primary profile has a value, and the returned profile
  holds the supplement's value when that value is truthy and the primary value is an
  unset sentinel (0, \<open>N/A\<close> or the empty string); in every other case it holds the
  primary value.
\<close>

theorem merge_policy:
  assumes "get_company_basic_info symbol (Inr info) resp now = Some profile"
      and "(key, v) \<in> set (scrape_yahoo_finance_safe resp)"
  shows "\<exists>company_data cur.
           primary_profile symbol info now = Inr company_data \<and>
           map_of company_data key = Some cur \<and>
           map_of profile key = Some (if truthy v \<and> unset_sentinel cur then v else cur)"
proof -
  from assms(2) have ne: "scrape_yahoo_finance_safe resp \<noteq> []" by auto
  from assms(1) ne obtain cd where
    cd: "primary_profile symbol info now = Inr cd" and
    prof: "profile = merge_scraped cd (scrape_yahoo_finance_safe resp)"
    by (auto simp: get_company_basic_info_def Let_def split: if_splits sum.splits)
  from scrape_keys [of resp] assms(2) have
    dist: "distinct (map fst (scrape_yahoo_finance_safe resp))" and
    key: "is_scraped_key key"
    by (auto simp: list_all_iff)
  from primary_profile_numbers [OF cd key] obtain cur where
    cur: "map_of cd key = Some cur" "is_number cur" by blast
  from merge_scraped_key [OF dist assms(2), of cd] overwrites_number [OF cur, of v] cur(1)
  have "map_of profile key = Some (if truthy v \<and> unset_sentinel cur then v else cur)"
    by (simp add: prof)
  with cd cur(1) show ?thesis by blast
qed

lemma sample_scrape:
  "scrape_yahoo_finance_safe sample_page =
     [(''current_price'', PFloat (Fin (15125 / 100))),
      (''market_cap'', PFloat (Fin (25 / 10 * 10 ^ 12)))]"
  by (simp add: scrape_yahoo_finance_safe_def sample_page_def dict_set_def market_eval)

lemma sample_primary:
  "\<exists>cd. primary_profile ''aaa'' sample_info ''now'' = Inr cd \<and>
        map_of cd ''market_cap'' = Some (PFloat (Fin 0)) \<and>
        map_of cd ''current_price'' = Some (PFloat (Fin 150))"
  by (simp add: primary_profile_def sample_info_def safe_get_number_def dict_get_def
      float_max_int_def)

lemma sample_profile:
  "\<exists>p. get_company_basic_info ''aaa'' (Inr sample_info) sample_page ''now'' = Some p"
proof -
  from sample_primary obtain cd where "primary_profile ''aaa'' sample_info ''now'' = Inr cd"
    by blast
  then show ?thesis
    by (simp add: get_company_basic_info_def sample_info_def dict_len_def Let_def)
qed

theorem merge_policy_witness:
  "\<exists>p. get_company_basic_info ''aaa'' (Inr sample_info) sample_page ''now'' = Some p \<and>
       map_of p ''market_cap'' = Some (PFloat (Fin (25 / 10 * 10 ^ 12))) \<and>
       map_of p ''current_price'' = Some (PFloat (Fin 150))"
proof -
  from sample_profile obtain p where
    p: "get_company_basic_info ''aaa'' (Inr sample_info) sample_page ''now'' = Some p"
    by blast
  from sample_primary obtain cd where
    cd: "primary_profile ''aaa'' sample_info ''now'' = Inr cd"
        "map_of cd ''market_cap'' = Some (PFloat (Fin 0))"
        "map_of cd ''current_price'' = Some (PFloat (Fin 150))"
    by blast
  have m: "(''market_cap'', PFloat (Fin (25 / 10 * 10 ^ 12)))
             \<in> set (scrape_yahoo_finance_safe sample_page)"
    and c: "(''current_price'', PFloat (Fin (15125 / 100)))
             \<in> set (scrape_yahoo_finance_safe sample_page)"
    by (simp_all add: sample_scrape)
  from merge_policy [OF p m] cd have
    "map_of p ''market_cap'' = Some (PFloat (Fin (25 / 10 * 10 ^ 12)))"
    by (auto simp: unset_sentinel_def)
  moreover from merge_policy [OF p c] cd have
    "map_of p ''current_price'' = Some (PFloat (Fin 150))"
    by (auto simp: unset_sentinel_def)
  ultimately show ?thesis using p by blast
qed

end
